theory Spec2Isabelle
  imports Main "HOL-Library.Sublist"
begin

section \<open>Python values, errors and the world the services act on\<close>

text \<open>
  The services of \<^verbatim>\<open>ignition/service/lifecycle.py\<close> are embedded as state-passing
  functions. Values that the source handles without looking at their type (request ids,
  deployment locations, statuses, property maps) are Python values; \<open>PyNone\<close> is
  Python's \<^verbatim>\<open>None\<close>, so that the source's \<^verbatim>\<open>is None\<close> tests and its
  \<^verbatim>\<open>is True\<close> test are equalities on this type.
\<close>

datatype pyval =
    PyNone
  | PyBool bool
  | PyInt int
  | PyStr string
  | PyDict "(string \<times> pyval) list"

type_synonym bytes = string

text \<open>
  Exceptions are values. \<open>BinasciiError\<close> is \<^verbatim>\<open>binascii.Error\<close>, which Python declares
  as a subclass of \<^verbatim>\<open>ValueError\<close>; \<open>OSError\<close> stands for the file system's errors
  (FileNotFoundError, IsADirectoryError, NotADirectoryError); \<open>ExternalError\<close> is whatever
  an injected collaborator (driver, job queue, postal service) raises.
\<close>

datatype error =
    ValueError string
  | BinasciiError string
  | KeyError string
  | AttributeError string
  | BadZipFile string
  | OSError string
  | ExternalError string


subsection \<open>Paths\<close>

text \<open>
  \<^verbatim>\<open>os.path.join\<close> of two parts, as \<^verbatim>\<open>posixpath\<close> computes it: an absolute second
  part replaces the first, otherwise the parts are joined by one separator unless the first
  is empty or already ends with one.
\<close>

definition startswith_sep :: "string \<Rightarrow> bool" where
  "startswith_sep p = (case p of [] \<Rightarrow> False | c # _ \<Rightarrow> c = CHR ''/'')"

definition endswith_sep :: "string \<Rightarrow> bool" where
  "endswith_sep p = (case rev p of [] \<Rightarrow> False | c # _ \<Rightarrow> c = CHR ''/'')"

definition os_path_join :: "string \<Rightarrow> string \<Rightarrow> string" where
  "os_path_join a b =
     (if startswith_sep b then b
      else if a = [] \<or> endswith_sep a then a @ b
      else a @ ''/'' @ b)"

text \<open>
  The file system resolves a path string to the list of its components: repeated separators
  and \<^verbatim>\<open>.\<close> components vanish, an absolute path starts with the root component
  \<^verbatim>\<open>/\<close>, a relative one is taken from the working directory \<open>[]\<close>. Symbolic links
  and \<^verbatim>\<open>..\<close> are not interpreted (a \<^verbatim>\<open>..\<close> component is a name like any other).
\<close>

fun split_from :: "string \<Rightarrow> string \<Rightarrow> string list" where
  "split_from cur [] = [cur]"
| "split_from cur (c # cs) =
     (if c = CHR ''/'' then cur # split_from [] cs else split_from (cur @ [c]) cs)"

definition split_sep :: "string \<Rightarrow> string list" where
  "split_sep p = split_from [] p"

definition is_component :: "string \<Rightarrow> bool" where
  "is_component c = (c \<noteq> [] \<and> c \<noteq> ''.'')"

definition resolve :: "string \<Rightarrow> string list" where
  "resolve p = (if startswith_sep p then [''/''] else []) @ filter is_component (split_sep p)"

definition under :: "string list \<Rightarrow> string list \<Rightarrow> bool" where
  "under d q = (length d < length q \<and> take (length d) q = d)"

subsection \<open>The file system and the trace of outside calls\<close>

datatype node = File bytes | Dir

type_synonym filesystem = "string list \<Rightarrow> node option"

text \<open>
  \<^verbatim>\<open>ignition.utils.file.DirectoryTree\<close> and the messaging classes \<^verbatim>\<open>Envelope\<close> and
  \<^verbatim>\<open>Message\<close> are declared outside the two source files; they are carried as plain
  constructors around what the source passes to them.
\<close>

datatype directory_tree = DirectoryTree string

datatype message = Message string

datatype envelope = Envelope pyval message

text \<open>
  Every call that leaves the module is recorded, in order, in the trace: the file-system
  calls of the script file manager, the two driver operations, \<^verbatim>\<open>queue_job\<close> of the job
  queue service and \<^verbatim>\<open>post\<close> of the postal service.
\<close>

datatype event =
    OsRemove string
  | ShutilRmtree string
  | OpenWb string
  | FileWrite string bytes
  | IsZipfile string
  | ZipExtractAll string string
  | DriverExecuteLifecycle pyval directory_tree pyval pyval pyval
  | DriverGetLifecycleExecution pyval pyval
  | QueueJob "(string \<times> pyval) list"
  | PostalPost envelope

record world =
  fs :: filesystem
  trace :: "event list"

definition emit :: "event \<Rightarrow> world \<Rightarrow> world" where
  "emit ev w = w\<lparr>trace := trace w @ [ev]\<rparr>"

text \<open>
  The library functions the module calls but does not define are parameters:
  the UUID that \<^verbatim>\<open>uuid.uuid4()\<close> draws, \<^verbatim>\<open>base64.b64decode\<close> (the decoded bytes, or
  the message of the \<^verbatim>\<open>binascii.Error\<close> it raises), the magic-number test behind
  \<^verbatim>\<open>zipfile.is_zipfile\<close>, the members that \<^verbatim>\<open>ZipFile.extractall\<close> writes (paths relative
  to the target directory, sanitised by the library, intermediate directories included; or the
  message of the \<^verbatim>\<open>BadZipFile\<close> raised on opening the archive), the message of the
  \<^verbatim>\<open>BadZipFile\<close> that \<^verbatim>\<open>extractall\<close> raises at a corrupt member, if it has one
  (the members are then those written before the failure), and the JSON text that
  \<^verbatim>\<open>JsonContent(...).get()\<close> renders.
\<close>

record library =
  uuid4 :: string
  b64decode :: "string \<Rightarrow> string + bytes"
  is_zipfile_bytes :: "bytes \<Rightarrow> bool"
  zip_entries :: "bytes \<Rightarrow> string + (string list \<times> node) list"
  zip_extract_failure :: "bytes \<Rightarrow> string option"
  json_content_get :: "pyval \<Rightarrow> string"

definition os_path_exists :: "string \<Rightarrow> world \<Rightarrow> bool" where
  "os_path_exists p w = (p \<noteq> [] \<and> fs w (resolve p) \<noteq> None)"

definition os_remove :: "string \<Rightarrow> world \<Rightarrow> (error + unit) \<times> world" where
  "os_remove p w =
     (let w1 = emit (OsRemove p) w in
      case fs w (resolve p) of
        None \<Rightarrow> (Inl (OSError ''FileNotFoundError''), w1)
      | Some Dir \<Rightarrow> (Inl (OSError ''IsADirectoryError''), w1)
      | Some (File _) \<Rightarrow> (Inr (), w1\<lparr>fs := (fs w)(resolve p := None)\<rparr>))"

definition shutil_rmtree :: "string \<Rightarrow> world \<Rightarrow> (error + unit) \<times> world" where
  "shutil_rmtree p w =
     (let w1 = emit (ShutilRmtree p) w in
      case fs w (resolve p) of
        None \<Rightarrow> (Inl (OSError ''FileNotFoundError''), w1)
      | Some (File _) \<Rightarrow> (Inl (OSError ''NotADirectoryError''), w1)
      | Some Dir \<Rightarrow>
          (Inr (), w1\<lparr>fs := (\<lambda>q. if q = resolve p \<or> under (resolve p) q then None else fs w q)\<rparr>))"

text \<open>
  \<^verbatim>\<open>open(path, 'wb')\<close> creates the file or truncates it; it fails on the empty path, on
  a directory, and when the parent is not an existing directory.
\<close>

definition open_wb :: "string \<Rightarrow> world \<Rightarrow> (error + unit) \<times> world" where
  "open_wb p w =
     (let w1 = emit (OpenWb p) w in
      if p = [] then (Inl (OSError ''FileNotFoundError''), w1)
      else if fs w (resolve p) = Some Dir then (Inl (OSError ''IsADirectoryError''), w1)
      else if resolve p = [] \<or> fs w (butlast (resolve p)) \<noteq> Some Dir
      then (Inl (OSError ''FileNotFoundError''), w1)
      else (Inr (), w1\<lparr>fs := (fs w)(resolve p \<mapsto> File [])\<rparr>))"

definition file_write :: "string \<Rightarrow> bytes \<Rightarrow> world \<Rightarrow> world" where
  "file_write p data w = (emit (FileWrite p data) w)\<lparr>fs := (fs w)(resolve p \<mapsto> File data)\<rparr>"

definition zipfile_is_zipfile :: "library \<Rightarrow> string \<Rightarrow> world \<Rightarrow> bool \<times> world" where
  "zipfile_is_zipfile lib p w =
     (case fs w (resolve p) of
        Some (File data) \<Rightarrow> (is_zipfile_bytes lib data, emit (IsZipfile p) w)
      | _ \<Rightarrow> (False, emit (IsZipfile p) w))"

text \<open>
  \<^verbatim>\<open>ZipFile(package_path, 'r').extractall(extracted_path)\<close>: an archive that cannot be
  opened raises \<^verbatim>\<open>BadZipFile\<close> and writes nothing. Otherwise the members are extracted one
  by one: an archive without members writes nothing; else the target directory and its missing
  ancestors are created and every member is written below the target, a later member replacing
  an earlier one of the same path. Files that already lie below the target and are not members
  stay. A corrupt member raises \<^verbatim>\<open>BadZipFile\<close> after the members before it were written,
  so a failed extraction can leave a partly written directory.
\<close>

definition extract_into :: "string list \<Rightarrow> (string list \<times> node) list \<Rightarrow> filesystem \<Rightarrow> filesystem" where
  "extract_into d entries f =
     (\<lambda>q. if under d q then
             (case map_of (rev entries) (drop (length d) q) of
                Some n \<Rightarrow> Some n
              | None \<Rightarrow> f q)
           else if take (length q) d = q \<and> length q \<le> length d \<and> f q = None then Some Dir
           else f q)"

fun is_file :: "node option \<Rightarrow> bool" where
  "is_file (Some (File _)) = True"
| "is_file _ = False"

definition zipfile_extractall :: "library \<Rightarrow> string \<Rightarrow> string \<Rightarrow> world \<Rightarrow> (error + unit) \<times> world" where
  "zipfile_extractall lib package_path extracted_path w =
     (let w1 = emit (ZipExtractAll package_path extracted_path) w in
      case fs w (resolve package_path) of
        Some (File data) \<Rightarrow>
          (case zip_entries lib data of
             Inl msg \<Rightarrow> (Inl (BadZipFile msg), w1)
           | Inr entries \<Rightarrow>
               if entries \<noteq> []
                  \<and> list_ex (\<lambda>q. is_file (fs w q)) (prefixes (resolve extracted_path))
               then (Inl (OSError ''NotADirectoryError''), w1)
               else
                 (let w2 = (if entries = [] then w1
                            else w1\<lparr>fs := extract_into (resolve extracted_path) entries (fs w)\<rparr>)
                  in case zip_extract_failure lib data of
                       None \<Rightarrow> (Inr (), w2)
                     | Some msg \<Rightarrow> (Inl (BadZipFile msg), w2)))
      | _ \<Rightarrow> (Inl (OSError ''FileNotFoundError''), w1))"

section \<open>LifecycleScriptFileManagerService\<close>

record lifecycle_script_file_manager_service =
  scripts_workspace :: string

definition determine_package_path :: "lifecycle_script_file_manager_service \<Rightarrow> string \<Rightarrow> string" where
  "determine_package_path self tree_name = os_path_join (scripts_workspace self) (tree_name @ ''.zip'')"

definition determine_extracted_path :: "lifecycle_script_file_manager_service \<Rightarrow> string \<Rightarrow> string" where
  "determine_extracted_path self tree_name = os_path_join (scripts_workspace self) tree_name"

definition clear_existing_files ::
  "lifecycle_script_file_manager_service \<Rightarrow> string \<Rightarrow> world \<Rightarrow> (error + unit) \<times> world" where
  "clear_existing_files self tree_name w =
     (let package_write_path = determine_package_path self tree_name in
      case (if os_path_exists package_write_path w then os_remove package_write_path w
            else (Inr (), w)) of
        (Inl e, w1) \<Rightarrow> (Inl e, w1)
      | (Inr _, w1) \<Rightarrow>
          (let extracted_path = determine_extracted_path self tree_name in
           if os_path_exists extracted_path w1 then shutil_rmtree extracted_path w1
           else (Inr (), w1)))"

text \<open>
  In \<^verbatim>\<open>__write_scripts_to_disk\<close> the \<^verbatim>\<open>with open(...)\<close> statement opens (and so
  truncates or creates) the package file before the body evaluates \<^verbatim>\<open>base64.b64decode\<close>;
  a payload that does not decode therefore leaves an empty package file behind.
\<close>

definition write_scripts_to_disk ::
  "library \<Rightarrow> lifecycle_script_file_manager_service \<Rightarrow> string \<Rightarrow> string \<Rightarrow> world
     \<Rightarrow> (error + string) \<times> world" where
  "write_scripts_to_disk lib self tree_name lifecycle_scripts w =
     (let package_write_path = determine_package_path self tree_name in
      case open_wb package_write_path w of
        (Inl e, w1) \<Rightarrow> (Inl e, w1)
      | (Inr _, w1) \<Rightarrow>
          (case b64decode lib lifecycle_scripts of
             Inl msg \<Rightarrow> (Inl (BinasciiError msg), w1)
           | Inr data \<Rightarrow> (Inr package_write_path, file_write package_write_path data w1)))"

definition extract_scripts ::
  "library \<Rightarrow> lifecycle_script_file_manager_service \<Rightarrow> string \<Rightarrow> string \<Rightarrow> world
     \<Rightarrow> (error + string) \<times> world" where
  "extract_scripts lib self tree_name package_path w =
     (case zipfile_is_zipfile lib package_path w of
        (False, w1) \<Rightarrow>
          (Inl (ValueError ''lifecycle_scripts should include binary contents of a zip file''), w1)
      | (True, w1) \<Rightarrow>
          (let extracted_path = determine_extracted_path self tree_name in
           case zipfile_extractall lib package_path extracted_path w1 of
             (Inl e, w2) \<Rightarrow> (Inl e, w2)
           | (Inr _, w2) \<Rightarrow> (Inr extracted_path, w2)))"

definition build_tree ::
  "library \<Rightarrow> lifecycle_script_file_manager_service \<Rightarrow> string \<Rightarrow> string \<Rightarrow> world
     \<Rightarrow> (error + directory_tree) \<times> world" where
  "build_tree lib self tree_name lifecycle_scripts w =
     (case clear_existing_files self tree_name w of
        (Inl e, w1) \<Rightarrow> (Inl e, w1)
      | (Inr _, w1) \<Rightarrow>
          (case write_scripts_to_disk lib self tree_name lifecycle_scripts w1 of
             (Inl e, w2) \<Rightarrow> (Inl e, w2)
           | (Inr package_path, w2) \<Rightarrow>
               (case extract_scripts lib self tree_name package_path w2 of
                  (Inl e, w3) \<Rightarrow> (Inl e, w3)
                | (Inr extracted_path, w3) \<Rightarrow> (Inr (DirectoryTree extracted_path), w3))))"

section \<open>The lifecycle model and the injected collaborators\<close>

text \<open>
  Modelled from the spec: the classes \<^verbatim>\<open>LifecycleExecution\<close> and
  \<^verbatim>\<open>LifecycleExecuteResponse\<close> of \<^verbatim>\<open>ignition.model.lifecycle\<close> are not among
  the source files, which only construct them (\<^verbatim>\<open>LifecycleExecuteResponse(request_id)\<close>,
  \<^verbatim>\<open>LifecycleExecution(request_id, status)\<close>) and read their attributes
  \<^verbatim>\<open>request_id\<close> and \<^verbatim>\<open>status\<close>. The spec's ExecutionStatus has the fields
  requestId, status, outputs and failureDetail; its ExecutionAck has the field requestId.
\<close>

record lifecycle_execution =
  le_request_id :: pyval
  le_status :: pyval
  le_outputs :: pyval
  le_failure_details :: pyval

record lifecycle_execute_response =
  er_request_id :: pyval

text \<open>
  Modelled from the spec: the constants \<^verbatim>\<open>STATUS_COMPLETE\<close> and \<^verbatim>\<open>STATUS_FAILED\<close>
  of \<^verbatim>\<open>ignition.model.lifecycle\<close> are not among the source files. The spec's status
  enumeration is NOT_STARTED, IN_PROGRESS, COMPLETE, FAILED, the last two terminal.
\<close>

definition STATUS_COMPLETE :: pyval where
  "STATUS_COMPLETE = PyStr ''COMPLETE''"

definition STATUS_FAILED :: pyval where
  "STATUS_FAILED = PyStr ''FAILED''"

text \<open>
  Modelled from the spec: the function \<^verbatim>\<open>lifecycle_execution_dict\<close> of
  \<^verbatim>\<open>ignition.model.lifecycle\<close> is not among the source files. The spec's CompletionEvent
  is the projection of an ExecutionStatus on the fixed field set requestId, status, outputs,
  failureDetail.
\<close>

definition lifecycle_execution_dict :: "lifecycle_execution \<Rightarrow> pyval" where
  "lifecycle_execution_dict le =
     PyDict [(''requestId'', le_request_id le), (''status'', le_status le),
             (''outputs'', le_outputs le), (''failureDetail'', le_failure_details le)]"

text \<open>
  The driver (\<^verbatim>\<open>LifecycleDriverCapability\<close>), the job queue service and the postal
  service are injected: each is the answer it gives to a call, an exception included.
\<close>

record lifecycle_driver_capability =
  driver_execute_lifecycle ::
    "pyval \<Rightarrow> directory_tree \<Rightarrow> pyval \<Rightarrow> pyval \<Rightarrow> pyval \<Rightarrow> error + lifecycle_execute_response"
  driver_get_lifecycle_execution :: "pyval \<Rightarrow> pyval \<Rightarrow> error + lifecycle_execution"

record job_queue_capability =
  queue_job :: "(string \<times> pyval) list \<Rightarrow> error option"

record postal_capability =
  post :: "envelope \<Rightarrow> error option"

section \<open>LifecycleMessagingService\<close>

record lifecycle_messaging_service =
  postal_service :: postal_capability
  lifecycle_execution_events_topic :: pyval

definition send_lifecycle_execution ::
  "library \<Rightarrow> lifecycle_messaging_service \<Rightarrow> lifecycle_execution option \<Rightarrow> world
     \<Rightarrow> (error + unit) \<times> world" where
  "send_lifecycle_execution lib self lifecycle_execution w =
     (case lifecycle_execution of
        None \<Rightarrow>
          (Inl (ValueError ''lifecycle_execution must be set to send an lifecycle execution event''), w)
      | Some le \<Rightarrow>
          (let lifecycle_execution_message_content = lifecycle_execution_dict le;
               message_str = json_content_get lib lifecycle_execution_message_content;
               env = Envelope (lifecycle_execution_events_topic self) (Message message_str);
               w1 = emit (PostalPost env) w
           in case post (postal_service self) env of
                Some e \<Rightarrow> (Inl e, w1)
              | None \<Rightarrow> (Inr (), w1)))"

section \<open>LifecycleExecutionMonitoringService\<close>

definition LIFECYCLE_EXECUTION_MONITOR_JOB_TYPE :: string where
  "LIFECYCLE_EXECUTION_MONITOR_JOB_TYPE = ''LifecycleExecutionMonitoring''"

record lifecycle_execution_monitoring_service =
  job_queue_service :: job_queue_capability
  lifecycle_messaging_service :: lifecycle_messaging_service
  monitor_driver :: lifecycle_driver_capability

text \<open>
  A job definition is a Python dict, kept as the list of its items; \<^verbatim>\<open>key in d\<close> is
  \<open>map_of d key \<noteq> None\<close> and \<^verbatim>\<open>d[key]\<close> raises \<^verbatim>\<open>KeyError\<close> on a missing key.
\<close>

definition job_handler ::
  "library \<Rightarrow> lifecycle_execution_monitoring_service \<Rightarrow> (string \<times> pyval) list \<Rightarrow> world
     \<Rightarrow> (error + bool) \<times> world" where
  "job_handler lib self job_definition w =
     (if map_of job_definition ''request_id'' = None
         \<or> map_of job_definition ''request_id'' = Some PyNone then (Inr True, w)
      else if map_of job_definition ''deployment_location'' = None
         \<or> map_of job_definition ''deployment_location'' = Some PyNone then (Inr True, w)
      else
        (case map_of job_definition ''request_id'' of
           None \<Rightarrow> (Inl (KeyError ''request_id''), w)
         | Some request_id \<Rightarrow>
             (case map_of job_definition ''deployment_location'' of
                None \<Rightarrow> (Inl (KeyError ''deployment_location''), w)
              | Some deployment_location \<Rightarrow>
                  (let w1 = emit (DriverGetLifecycleExecution request_id deployment_location) w in
                   case driver_get_lifecycle_execution (monitor_driver self)
                          request_id deployment_location of
                     Inl e \<Rightarrow> (Inl e, w1)
                   | Inr lifecycle_execution_task \<Rightarrow>
                       (let status = le_status lifecycle_execution_task in
                        if status \<in> set [STATUS_COMPLETE, STATUS_FAILED] then
                          (case send_lifecycle_execution lib (lifecycle_messaging_service self)
                                  (Some lifecycle_execution_task) w1 of
                             (Inl e, w2) \<Rightarrow> (Inl e, w2)
                           | (Inr _, w2) \<Rightarrow> (Inr True, w2))
                        else (Inr False, w1))))))"

definition create_job_definition :: "pyval \<Rightarrow> pyval \<Rightarrow> (string \<times> pyval) list" where
  "create_job_definition request_id deployment_location =
     [(''job_type'', PyStr LIFECYCLE_EXECUTION_MONITOR_JOB_TYPE),
      (''request_id'', request_id),
      (''deployment_location'', deployment_location)]"

definition monitor_execution ::
  "lifecycle_execution_monitoring_service \<Rightarrow> pyval \<Rightarrow> pyval \<Rightarrow> world \<Rightarrow> (error + unit) \<times> world" where
  "monitor_execution self request_id deployment_location w =
     (if request_id = PyNone then
        (Inl (ValueError ''Cannot monitor task when request_id is not given''), w)
      else if deployment_location = PyNone then
        (Inl (ValueError ''Cannot monitor task when deployment_location is not given''), w)
      else
        (let job = create_job_definition request_id deployment_location;
             w1 = emit (QueueJob job) w
         in case queue_job (job_queue_service self) job of
              Some e \<Rightarrow> (Inl e, w1)
            | None \<Rightarrow> (Inr (), w1)))"

section \<open>LifecycleService\<close>

record lifecycle_properties =
  async_messaging_enabled :: pyval

record lifecycle_service_kwargs =
  kw_driver :: "lifecycle_driver_capability option"
  kw_lifecycle_config :: "lifecycle_properties option"
  kw_script_file_manager :: "lifecycle_script_file_manager_service option"
  kw_lifecycle_monitor_service :: "lifecycle_execution_monitoring_service option"

text \<open>
  The attribute \<^verbatim>\<open>lifecycle_monitor_service\<close> is set by the constructor only when
  \<^verbatim>\<open>async_enabled is True\<close>; \<open>None\<close> is the unset attribute, and reading it raises
  \<^verbatim>\<open>AttributeError\<close>.
\<close>

record lifecycle_service =
  driver :: lifecycle_driver_capability
  script_file_manager :: lifecycle_script_file_manager_service
  async_enabled :: pyval
  lifecycle_monitor_service :: "lifecycle_execution_monitoring_service option"

definition lifecycle_service_init :: "lifecycle_service_kwargs \<Rightarrow> error + lifecycle_service" where
  "lifecycle_service_init kwargs =
     (case kw_driver kwargs of
        None \<Rightarrow> Inl (ValueError ''driver argument not provided'')
      | Some d \<Rightarrow>
     (case kw_lifecycle_config kwargs of
        None \<Rightarrow> Inl (ValueError ''lifecycle_config argument not provided'')
      | Some lifecycle_config \<Rightarrow>
     (case kw_script_file_manager kwargs of
        None \<Rightarrow> Inl (ValueError ''script_file_manager argument not provided'')
      | Some m \<Rightarrow>
          (if async_messaging_enabled lifecycle_config = PyBool True then
             (case kw_lifecycle_monitor_service kwargs of
                None \<Rightarrow>
                  Inl (ValueError ''lifecycle_monitor_service argument not provided (required when async_messaging_enabled is True)'')
              | Some monitor \<Rightarrow>
                  Inr \<lparr>driver = d, script_file_manager = m,
                       async_enabled = async_messaging_enabled lifecycle_config,
                       lifecycle_monitor_service = Some monitor\<rparr>)
           else
             Inr \<lparr>driver = d, script_file_manager = m,
                  async_enabled = async_messaging_enabled lifecycle_config,
                  lifecycle_monitor_service = None\<rparr>))))"

definition async_lifecycle_execution_completion ::
  "lifecycle_service \<Rightarrow> pyval \<Rightarrow> pyval \<Rightarrow> world \<Rightarrow> (error + unit) \<times> world" where
  "async_lifecycle_execution_completion self request_id deployment_location w =
     (case lifecycle_monitor_service self of
        None \<Rightarrow> (Inl (AttributeError ''lifecycle_monitor_service''), w)
      | Some monitor \<Rightarrow> monitor_execution monitor request_id deployment_location w)"

definition execute_lifecycle ::
  "library \<Rightarrow> lifecycle_service \<Rightarrow> pyval \<Rightarrow> string \<Rightarrow> pyval \<Rightarrow> pyval \<Rightarrow> pyval \<Rightarrow> world
     \<Rightarrow> (error + lifecycle_execute_response) \<times> world" where
  "execute_lifecycle lib self lifecycle_name lifecycle_scripts system_properties properties
       deployment_location w =
     (let file_name = uuid4 lib in
      case build_tree lib (script_file_manager self) file_name lifecycle_scripts w of
        (Inl e, w1) \<Rightarrow> (Inl e, w1)
      | (Inr lifecycle_scripts_tree, w1) \<Rightarrow>
          (let w2 = emit (DriverExecuteLifecycle lifecycle_name lifecycle_scripts_tree
                            system_properties properties deployment_location) w1 in
           case driver_execute_lifecycle (driver self) lifecycle_name lifecycle_scripts_tree
                  system_properties properties deployment_location of
             Inl e \<Rightarrow> (Inl e, w2)
           | Inr execute_response \<Rightarrow>
               if async_enabled self = PyBool True then
                 (case async_lifecycle_execution_completion self
                         (er_request_id execute_response) deployment_location w2 of
                    (Inl e, w3) \<Rightarrow> (Inl e, w3)
                  | (Inr _, w3) \<Rightarrow> (Inr execute_response, w3))
               else (Inr execute_response, w2)))"

section \<open>Vocabulary of the properties\<close>

text \<open>
  A file system is well formed when every node other than the working directory lies in a
  directory: the parent of an existing path exists and is a directory.
\<close>

definition well_formed_fs :: "filesystem \<Rightarrow> bool" where
  "well_formed_fs f = (\<forall>q. q \<noteq> [] \<and> f q \<noteq> None \<longrightarrow> f (butlast q) = Some Dir)"

text \<open>
  The calls to the injected collaborators (driver, job queue, postal service), as opposed to
  the file-system calls of the script file manager.
\<close>

fun is_collaborator_call :: "event \<Rightarrow> bool" where
  "is_collaborator_call (DriverExecuteLifecycle _ _ _ _ _) = True"
| "is_collaborator_call (DriverGetLifecycleExecution _ _) = True"
| "is_collaborator_call (QueueJob _) = True"
| "is_collaborator_call (PostalPost _) = True"
| "is_collaborator_call _ = False"

definition collaborator_calls :: "world \<Rightarrow> event list" where
  "collaborator_calls w = filter is_collaborator_call (trace w)"

section \<open>An example deployment\<close>

text \<open>
  A small concrete deployment on which the theorems below are instantiated: a library whose
  decoder knows two payloads (one decoding to an archive with the single member
  \<^verbatim>\<open>install.sh\<close>, one decoding to bytes that are no archive) and whose renderer writes the
  keys of the top-level object; a driver that acknowledges every request as \<^verbatim>\<open>abc\<close> and
  reports \<^verbatim>\<open>abc\<close> as COMPLETE and everything else as PAUSED; a job queue and a postal
  service that accept every call; the default workspace \<^verbatim>\<open>./scripts_workspace\<close>.
\<close>

definition example_library :: library where
  "example_library =
     \<lparr>uuid4 = ''0b0e3f6c-5a3d-4c43-9d0b-3f1f7f0e2a11'',
      b64decode = (\<lambda>s. if s = ''UEs='' then Inr ''PK'' else if s = ''aGk='' then Inr ''hi''
                        else Inl ''Incorrect padding''),
      is_zipfile_bytes = (\<lambda>data. data = ''PK''),
      zip_entries = (\<lambda>data. if data = ''PK'' then Inr [([''install.sh''], File ''exit 0'')]
                             else Inl ''File is not a zip file''),
      zip_extract_failure = (\<lambda>data. None),
      json_content_get = (\<lambda>v. case v of PyDict items \<Rightarrow> concat (map fst items) | _ \<Rightarrow> [])\<rparr>"

definition example_driver :: lifecycle_driver_capability where
  "example_driver =
     \<lparr>driver_execute_lifecycle =
        (\<lambda>lifecycle_name tree system_properties properties deployment_location.
           Inr \<lparr>er_request_id = PyStr ''abc''\<rparr>),
      driver_get_lifecycle_execution =
        (\<lambda>request_id deployment_location.
           Inr \<lparr>le_request_id = request_id,
                le_status = (if request_id = PyStr ''abc'' then PyStr ''COMPLETE''
                             else PyStr ''PAUSED''),
                le_outputs = PyDict [], le_failure_details = PyNone\<rparr>)\<rparr>"

definition example_messaging :: lifecycle_messaging_service where
  "example_messaging =
     \<lparr>postal_service = \<lparr>post = (\<lambda>env. None)\<rparr>,
      lifecycle_execution_events_topic = PyStr ''lifecycle_execution_events''\<rparr>"

definition example_monitor :: lifecycle_execution_monitoring_service where
  "example_monitor =
     \<lparr>job_queue_service = \<lparr>queue_job = (\<lambda>job. None)\<rparr>,
      lifecycle_messaging_service = example_messaging,
      monitor_driver = example_driver\<rparr>"

definition example_file_manager :: lifecycle_script_file_manager_service where
  "example_file_manager = \<lparr>scripts_workspace = ''./scripts_workspace''\<rparr>"

definition example_service :: lifecycle_service where
  "example_service =
     \<lparr>driver = example_driver, script_file_manager = example_file_manager,
      async_enabled = PyBool True, lifecycle_monitor_service = Some example_monitor\<rparr>"

definition example_location :: pyval where
  "example_location = PyDict [(''name'', PyStr ''dl-1'')]"

definition example_job :: "string \<Rightarrow> (string \<times> pyval) list" where
  "example_job request_id =
     [(''job_type'', PyStr ''LifecycleExecutionMonitoring''),
      (''request_id'', PyStr request_id),
      (''deployment_location'', example_location)]"

text \<open>The workspace before any build, and the workspace a previous build of \<^verbatim>\<open>bundle\<close> left.\<close>

definition example_world :: world where
  "example_world =
     \<lparr>fs = (\<lambda>p. if p = [] \<or> p = [''scripts_workspace''] then Some Dir else None),
      trace = []\<rparr>"

definition stale_world :: world where
  "stale_world =
     \<lparr>fs = (\<lambda>p. if p = [] \<or> p = [''scripts_workspace''] \<or> p = [''scripts_workspace'', ''bundle'']
                 then Some Dir
                 else if p = [''scripts_workspace'', ''bundle.zip''] then Some (File ''old'')
                 else if p = [''scripts_workspace'', ''bundle'', ''stale.sh'']
                 then Some (File ''exit 1'')
                 else None),
      trace = []\<rparr>"



section \<open>Paths of a tree name\<close>

lemma split_from_nonempty: "split_from cur p \<noteq> []"
  by (induction p arbitrary: cur) auto

lemma split_from_no_sep:
  "CHR ''/'' \<notin> set y \<Longrightarrow> split_from cur y = [cur @ y]"
  by (induction y arbitrary: cur) auto

lemma split_from_append_no_sep:
  "CHR ''/'' \<notin> set y \<Longrightarrow>
     split_from cur (x @ y) = butlast (split_from cur x) @ [last (split_from cur x) @ y]"
proof (induction x arbitrary: cur)
  case Nil
  then show ?case by (simp add: split_from_no_sep)
next
  case (Cons c x)
  then show ?case by (simp add: split_from_nonempty butlast_append)
qed

lemma os_path_join_zip: "os_path_join a (b @ ''.zip'') = os_path_join a b @ ''.zip''"
  by (cases b) (auto simp: os_path_join_def startswith_sep_def)

lemma startswith_sep_zip: "startswith_sep (x @ ''.zip'') = startswith_sep x"
  by (cases x) (auto simp: startswith_sep_def)

lemma resolve_zip_shape:
  "\<exists>r l. resolve (x @ ''.zip'') = r @ [l @ ''.zip'']
       \<and> resolve x = r @ (if is_component l then [l] else [])"
proof -
  let ?segs = "split_from [] x"
  have ne: "?segs \<noteq> []" by (rule split_from_nonempty)
  have zip: "split_sep (x @ ''.zip'') = butlast ?segs @ [last ?segs @ ''.zip'']"
    unfolding split_sep_def by (rule split_from_append_no_sep) simp
  have self: "split_sep x = butlast ?segs @ [last ?segs]"
    unfolding split_sep_def using ne by simp
  have comp: "is_component (last ?segs @ ''.zip'')"
    by (cases "last ?segs") (auto simp: is_component_def)
  let ?r = "(if startswith_sep x then [''/''] else []) @ filter is_component (butlast ?segs)"
  have "resolve (x @ ''.zip'') = ?r @ [last ?segs @ ''.zip'']"
    unfolding resolve_def zip startswith_sep_zip using comp by simp
  moreover have "resolve x = ?r @ (if is_component (last ?segs) then [last ?segs] else [])"
    unfolding resolve_def self by simp
  ultimately show ?thesis by blast
qed

lemma paths_shape:
  "\<exists>r z. resolve (determine_package_path self t) = r @ [z]
     \<and> (resolve (determine_extracted_path self t) = r
        \<or> (\<exists>s. s \<noteq> z \<and> resolve (determine_extracted_path self t) = r @ [s]))"
proof -
  obtain r l where a: "resolve (os_path_join (scripts_workspace self) t @ ''.zip'') = r @ [l @ ''.zip'']"
    and b: "resolve (os_path_join (scripts_workspace self) t) = r @ (if is_component l then [l] else [])"
    using resolve_zip_shape by blast
  show ?thesis
    unfolding determine_package_path_def determine_extracted_path_def os_path_join_zip
    using a b by (cases "is_component l") auto
qed


section \<open>The file-system steps\<close>

lemma nothing_under_missing:
  "well_formed_fs f \<Longrightarrow> f d = None \<Longrightarrow> under d q \<Longrightarrow> f q = None"
proof (induction q rule: rev_induct)
  case Nil
  then show ?case by (simp add: under_def)
next
  case (snoc x q)
  show ?case
  proof (rule ccontr)
    assume ex: "f (q @ [x]) \<noteq> None"
    from snoc.prems(1) have "q @ [x] \<noteq> [] \<and> f (q @ [x]) \<noteq> None \<longrightarrow> f (butlast (q @ [x])) = Some Dir"
      unfolding well_formed_fs_def by (rule spec)
    with ex have par: "f q = Some Dir" by simp
    from snoc.prems(3) have len: "length d \<le> length q" and tk: "take (length d) (q @ [x]) = d"
      unfolding under_def by auto
    from len tk have "take (length d) q = d" by simp
    with len have "q = d \<or> under d q"
      unfolding under_def by (cases "length d = length q") auto
    then show False using par snoc.prems(2) snoc.IH[OF snoc.prems(1,2)] by auto
  qed
qed

lemma extracted_path_nonempty:
  "scripts_workspace self \<noteq> [] \<Longrightarrow> determine_extracted_path self t \<noteq> []"
  by (cases t) (auto simp: determine_extracted_path_def os_path_join_def startswith_sep_def)

lemma package_path_nonempty: "determine_package_path self t \<noteq> []"
  by (auto simp: determine_package_path_def os_path_join_def startswith_sep_def split: list.splits)

lemma os_remove_ok:
  "os_remove p w = (Inr (), w1) \<Longrightarrow>
     fs w1 = (fs w)(resolve p := None) \<and> trace w1 = trace w @ [OsRemove p]"
  by (auto simp: os_remove_def emit_def Let_def split: option.splits node.splits)

lemma shutil_rmtree_ok:
  "shutil_rmtree p w = (Inr (), w1) \<Longrightarrow>
     fs w1 = (\<lambda>q. if q = resolve p \<or> under (resolve p) q then None else fs w q)
     \<and> trace w1 = trace w @ [ShutilRmtree p]"
  by (auto simp: shutil_rmtree_def emit_def Let_def split: option.splits node.splits)

lemma open_wb_ok:
  "open_wb p w = (Inr (), w1) \<Longrightarrow>
     fs w1 = (fs w)(resolve p \<mapsto> File []) \<and> trace w1 = trace w @ [OpenWb p]
     \<and> fs w (butlast (resolve p)) = Some Dir \<and> resolve p \<noteq> []"
  by (auto simp: open_wb_def emit_def Let_def split: if_splits)

lemma paths_distinct:
  "resolve (determine_package_path self t) \<noteq> resolve (determine_extracted_path self t)"
  using paths_shape[of self t] by auto

lemma clear_existing_files_effect:
  assumes "clear_existing_files self t w = (Inr (), w1)"
  shows "fs w1 =
           (if os_path_exists (determine_extracted_path self t) w
            then (\<lambda>q. if q = resolve (determine_extracted_path self t)
                          \<or> under (resolve (determine_extracted_path self t)) q
                       then None
                       else ((fs w)(resolve (determine_package_path self t) := None)) q)
            else (fs w)(resolve (determine_package_path self t) := None))"
    and "trace w1 = trace w
           @ (if os_path_exists (determine_package_path self t) w
              then [OsRemove (determine_package_path self t)] else [])
           @ (if os_path_exists (determine_extracted_path self t) w
              then [ShutilRmtree (determine_extracted_path self t)] else [])"
proof -
  let ?pkg = "determine_package_path self t" and ?e = "determine_extracted_path self t"
  obtain r z where P: "resolve ?pkg = r @ [z]"
    and E: "resolve ?e = r \<or> (\<exists>s. s \<noteq> z \<and> resolve ?e = r @ [s])"
    using paths_shape by blast
  have ne: "resolve ?pkg \<noteq> resolve ?e" using P E by auto
  obtain w0 where first: "(if os_path_exists ?pkg w then os_remove ?pkg w else (Inr (), w)) = (Inr (), w0)"
    and second: "(if os_path_exists ?e w0 then shutil_rmtree ?e w0 else (Inr (), w0)) = (Inr (), w1)"
    using assms
    by (auto simp: clear_existing_files_def Let_def split: prod.splits sum.splits)
  have fs0: "fs w0 = (fs w)(resolve ?pkg := None)"
    and tr0: "trace w0 = trace w @ (if os_path_exists ?pkg w then [OsRemove ?pkg] else [])"
    using first os_remove_ok[of ?pkg w w0] package_path_nonempty[of self t]
    by (auto simp: os_path_exists_def split: if_splits)
  have ex0: "os_path_exists ?e w0 = os_path_exists ?e w"
    using fs0 ne by (auto simp: os_path_exists_def)
  have fs1: "fs w1 = (if os_path_exists ?e w0
                      then (\<lambda>q. if q = resolve ?e \<or> under (resolve ?e) q then None else fs w0 q)
                      else fs w0)"
    and tr1: "trace w1 = trace w0 @ (if os_path_exists ?e w0 then [ShutilRmtree ?e] else [])"
    using second shutil_rmtree_ok[of ?e w0 w1] by (auto split: if_splits)
  show "fs w1 = (if os_path_exists ?e w
            then (\<lambda>q. if q = resolve ?e \<or> under (resolve ?e) q then None
                       else ((fs w)(resolve ?pkg := None)) q)
            else (fs w)(resolve ?pkg := None))"
    by (simp only: fs1 ex0 fs0)
  show "trace w1 = trace w @ (if os_path_exists ?pkg w then [OsRemove ?pkg] else [])
           @ (if os_path_exists ?e w then [ShutilRmtree ?e] else [])"
    using tr1 tr0 ex0 by simp
qed

lemma clear_existing_files_ok:
  assumes "clear_existing_files self t w = (Inr (), w1)"
  shows "fs w1 (resolve (determine_package_path self t)) = None"
    and "\<not> os_path_exists (determine_extracted_path self t) w1"
proof -
  note eff = clear_existing_files_effect(1)[OF assms]
  show "fs w1 (resolve (determine_package_path self t)) = None"
    unfolding eff by simp
  show "\<not> os_path_exists (determine_extracted_path self t) w1"
    using paths_distinct[of self t]
    unfolding os_path_exists_def eff by (auto simp: os_path_exists_def)
qed

lemma clear_existing_files_empties:
  assumes clear: "clear_existing_files self t w = (Inr (), w1)"
    and wf: "well_formed_fs (fs w)"
    and nonempty: "determine_extracted_path self t \<noteq> []"
    and u: "under (resolve (determine_extracted_path self t)) q"
  shows "fs w1 q = None"
proof (cases "os_path_exists (determine_extracted_path self t) w")
  case True
  then show ?thesis using clear_existing_files_effect(1)[OF clear] u by simp
next
  case False
  then have "fs w (resolve (determine_extracted_path self t)) = None"
    using nonempty by (simp add: os_path_exists_def)
  then have "fs w q = None" using nothing_under_missing[OF wf _ u] by simp
  then show ?thesis using clear_existing_files_effect(1)[OF clear] False by simp
qed

lemma package_not_under_extracted:
  assumes "fs w (butlast (resolve (determine_package_path self t))) = Some Dir"
    and "fs w (resolve (determine_extracted_path self t)) = None"
  shows "\<not> under (resolve (determine_extracted_path self t)) (resolve (determine_package_path self t))"
proof -
  obtain r z where P: "resolve (determine_package_path self t) = r @ [z]"
    and E: "resolve (determine_extracted_path self t) = r
            \<or> (\<exists>s. s \<noteq> z \<and> resolve (determine_extracted_path self t) = r @ [s])"
    using paths_shape by blast
  from assms P have "resolve (determine_extracted_path self t) \<noteq> r" by auto
  with E obtain s where "resolve (determine_extracted_path self t) = r @ [s]" by blast
  with P show ?thesis by (simp add: under_def)
qed

lemma os_remove_calls: "os_remove p w = (r, w1) \<Longrightarrow> collaborator_calls w1 = collaborator_calls w"
  by (auto simp: os_remove_def collaborator_calls_def emit_def Let_def
      split: option.splits node.splits)

lemma shutil_rmtree_calls:
  "shutil_rmtree p w = (r, w1) \<Longrightarrow> collaborator_calls w1 = collaborator_calls w"
  by (auto simp: shutil_rmtree_def collaborator_calls_def emit_def Let_def
      split: option.splits node.splits)

lemma open_wb_calls: "open_wb p w = (r, w1) \<Longrightarrow> collaborator_calls w1 = collaborator_calls w"
  by (auto simp: open_wb_def collaborator_calls_def emit_def Let_def split: if_splits)

lemma file_write_calls: "collaborator_calls (file_write p data w) = collaborator_calls w"
  by (simp add: file_write_def collaborator_calls_def emit_def)

lemma zipfile_is_zipfile_calls:
  "zipfile_is_zipfile lib p w = (b, w1) \<Longrightarrow> collaborator_calls w1 = collaborator_calls w"
  by (auto simp: zipfile_is_zipfile_def collaborator_calls_def emit_def
      split: option.splits node.splits)

lemma zipfile_extractall_calls:
  "zipfile_extractall lib p d w = (r, w1) \<Longrightarrow> collaborator_calls w1 = collaborator_calls w"
  by (auto simp: zipfile_extractall_def collaborator_calls_def emit_def Let_def
      split: option.splits node.splits sum.splits if_splits)

lemma clear_existing_files_calls:
  assumes "clear_existing_files self t w = (r, w1)"
  shows "collaborator_calls w1 = collaborator_calls w"
proof -
  let ?pkg = "determine_package_path self t" and ?e = "determine_extracted_path self t"
  obtain r0 w0 where first: "(if os_path_exists ?pkg w then os_remove ?pkg w else (Inr (), w)) = (r0, w0)"
    by (cases "if os_path_exists ?pkg w then os_remove ?pkg w else (Inr (), w)") auto
  then have c0: "collaborator_calls w0 = collaborator_calls w"
    by (auto split: if_splits dest: os_remove_calls)
  show ?thesis
  proof (cases r0)
    case (Inl e)
    then show ?thesis using assms first c0 by (simp add: clear_existing_files_def Let_def)
  next
    case (Inr u)
    then have "(if os_path_exists ?e w0 then shutil_rmtree ?e w0 else (Inr (), w0)) = (r, w1)"
      using assms first by (simp add: clear_existing_files_def Let_def)
    then show ?thesis using c0 by (auto split: if_splits dest: shutil_rmtree_calls)
  qed
qed

lemma write_scripts_to_disk_calls:
  "write_scripts_to_disk lib self t payload w = (r, w1) \<Longrightarrow>
     collaborator_calls w1 = collaborator_calls w"
  by (auto simp: write_scripts_to_disk_def Let_def file_write_calls
      split: prod.splits sum.splits dest: open_wb_calls)

lemma extract_scripts_calls:
  "extract_scripts lib self t p w = (r, w1) \<Longrightarrow> collaborator_calls w1 = collaborator_calls w"
  by (auto simp: extract_scripts_def Let_def
      split: prod.splits sum.splits bool.splits
      dest!: zipfile_is_zipfile_calls zipfile_extractall_calls)

lemma build_tree_calls:
  "build_tree lib self t payload w = (r, w1) \<Longrightarrow> collaborator_calls w1 = collaborator_calls w"
  by (auto simp: build_tree_def split: prod.splits sum.splits
      dest!: clear_existing_files_calls write_scripts_to_disk_calls extract_scripts_calls)

lemma build_tree_handle:
  "build_tree lib self t payload w = (Inr tree, w1) \<Longrightarrow>
     tree = DirectoryTree (determine_extracted_path self t)"
  by (auto simp: build_tree_def extract_scripts_def Let_def
      split: prod.splits sum.splits bool.splits)

lemma execute_lifecycle_ignores_monitor:
  "async_enabled self \<noteq> PyBool True \<Longrightarrow>
     execute_lifecycle lib (self\<lparr>lifecycle_monitor_service := monitor\<rparr>) lifecycle_name
       lifecycle_scripts system_properties properties deployment_location w =
     execute_lifecycle lib self lifecycle_name lifecycle_scripts system_properties properties
       deployment_location w"
  by (simp add: execute_lifecycle_def Let_def split: prod.splits sum.splits)


section \<open>Evaluating the example deployment\<close>

lemmas file_manager_defs =
  build_tree_def clear_existing_files_def write_scripts_to_disk_def extract_scripts_def
  determine_package_path_def determine_extracted_path_def os_path_join_def startswith_sep_def
  endswith_sep_def os_path_exists_def os_remove_def shutil_rmtree_def open_wb_def file_write_def
  zipfile_is_zipfile_def zipfile_extractall_def extract_into_def resolve_def split_sep_def
  is_component_def under_def emit_def Let_def

lemmas example_defs =
  example_library_def example_driver_def example_messaging_def example_monitor_def
  example_file_manager_def example_service_def example_location_def example_job_def
  example_world_def stale_world_def

lemma well_formed_example_world: "well_formed_fs (fs example_world)"
  by (auto simp: well_formed_fs_def example_world_def split: if_splits)

lemma well_formed_stale_world: "well_formed_fs (fs stale_world)"
  by (auto simp: well_formed_fs_def stale_world_def split: if_splits)

section \<open>The claims\<close>

text \<open>
  C1. For a monitor job that carries a request id and a deployment location (both keys present,
  neither value \<^verbatim>\<open>None\<close>) and a driver that answers the status query with an execution
  record, \<open>job_handler\<close> queries the driver once with the job's two values; when the reported
  status is COMPLETE or FAILED it publishes the full record (its four fields, rendered and posted
  to the configured topic) and returns true, or raises what the postal service raised; for any
  other status it returns false and publishes nothing.
\<close>

theorem job_handler_publishes_iff_terminal:
  assumes "map_of job_definition ''request_id'' = Some request_id" and "request_id \<noteq> PyNone"
    and "map_of job_definition ''deployment_location'' = Some deployment_location"
    and "deployment_location \<noteq> PyNone"
    and "driver_get_lifecycle_execution (monitor_driver self) request_id deployment_location
           = Inr task"
  shows "job_handler lib self job_definition w =
     (let w1 = emit (DriverGetLifecycleExecution request_id deployment_location) w;
          env = Envelope (lifecycle_execution_events_topic (lifecycle_messaging_service self))
                  (Message (json_content_get lib (lifecycle_execution_dict task)))
      in if le_status task = STATUS_COMPLETE \<or> le_status task = STATUS_FAILED then
           (case post (postal_service (lifecycle_messaging_service self)) env of
              None \<Rightarrow> Inr True
            | Some e \<Rightarrow> Inl e,
            emit (PostalPost env) w1)
         else (Inr False, w1))"
  using assms
  by (auto simp: job_handler_def send_lifecycle_execution_def Let_def split: option.splits)

theorem job_handler_publishes_iff_terminal_witness:
  "map_of (example_job ''abc'') ''request_id'' = Some (PyStr ''abc'') \<and> PyStr ''abc'' \<noteq> PyNone
   \<and> map_of (example_job ''abc'') ''deployment_location'' = Some example_location
   \<and> example_location \<noteq> PyNone
   \<and> driver_get_lifecycle_execution (monitor_driver example_monitor) (PyStr ''abc'')
        example_location =
       Inr \<lparr>le_request_id = PyStr ''abc'', le_status = PyStr ''COMPLETE'', le_outputs = PyDict [],
            le_failure_details = PyNone\<rparr>
   \<and> job_handler example_library example_monitor (example_job ''abc'') example_world =
       (Inr True,
        example_world\<lparr>trace :=
          [DriverGetLifecycleExecution (PyStr ''abc'') example_location,
           PostalPost (Envelope (PyStr ''lifecycle_execution_events'')
             (Message ''requestIdstatusoutputsfailureDetail''))]\<rparr>)"
  using job_handler_publishes_iff_terminal
    [of "example_job ''abc''" "PyStr ''abc''" example_location example_monitor
        "\<lparr>le_request_id = PyStr ''abc'', le_status = PyStr ''COMPLETE'', le_outputs = PyDict [],
          le_failure_details = PyNone\<rparr>" example_library example_world]
  by (simp add: example_defs STATUS_COMPLETE_def emit_def lifecycle_execution_dict_def)




text \<open>
  C3 (as the code has it). \<open>monitor_execution\<close> raises \<^verbatim>\<open>ValueError\<close> (the spec's
  ValidationError) and calls nothing exactly when its request id or its deployment location is
  \<^verbatim>\<open>None\<close>; for every other pair of arguments it calls \<^verbatim>\<open>queue_job\<close> exactly once, with
  the job of type \<^verbatim>\<open>LifecycleExecutionMonitoring\<close> that carries the two arguments, and returns
  or raises as the job queue does.
\<close>

theorem monitor_execution_rejects_none_only:
  "monitor_execution self request_id deployment_location w =
     (if request_id = PyNone then
        (Inl (ValueError ''Cannot monitor task when request_id is not given''), w)
      else if deployment_location = PyNone then
        (Inl (ValueError ''Cannot monitor task when deployment_location is not given''), w)
      else
        (case queue_job (job_queue_service self)
                [(''job_type'', PyStr ''LifecycleExecutionMonitoring''),
                 (''request_id'', request_id),
                 (''deployment_location'', deployment_location)] of
           None \<Rightarrow> Inr ()
         | Some e \<Rightarrow> Inl e,
         emit (QueueJob [(''job_type'', PyStr ''LifecycleExecutionMonitoring''),
                         (''request_id'', request_id),
                         (''deployment_location'', deployment_location)]) w))"
  by (simp add: monitor_execution_def create_job_definition_def
      LIFECYCLE_EXECUTION_MONITOR_JOB_TYPE_def Let_def split: option.splits)

theorem monitor_execution_rejects_none_only_witness:
  "monitor_execution example_monitor PyNone example_location example_world =
     (Inl (ValueError ''Cannot monitor task when request_id is not given''), example_world)
   \<and> monitor_execution example_monitor (PyStr ''abc'') PyNone example_world =
     (Inl (ValueError ''Cannot monitor task when deployment_location is not given''), example_world)
   \<and> monitor_execution example_monitor (PyStr ''abc'') example_location example_world =
     (Inr (), example_world\<lparr>trace := [QueueJob (example_job ''abc'')]\<rparr>)"
  using monitor_execution_rejects_none_only [of example_monitor PyNone example_location example_world]
    monitor_execution_rejects_none_only [of example_monitor "PyStr ''abc''" PyNone example_world]
    monitor_execution_rejects_none_only
      [of example_monitor "PyStr ''abc''" example_location example_world]
  by (simp add: example_defs emit_def)

text \<open>
  C3 as stated fails on empty arguments: with the empty string as request id and the empty
  map as deployment location, \<open>monitor_execution\<close> raises nothing and enqueues a job.
\<close>

theorem monitor_execution_empty_arguments_counterexample:
  "monitor_execution example_monitor (PyStr []) (PyDict []) example_world =
     (Inr (),
      example_world\<lparr>trace :=
        [QueueJob [(''job_type'', PyStr ''LifecycleExecutionMonitoring''),
                   (''request_id'', PyStr []),
                   (''deployment_location'', PyDict [])]]\<rparr>)"
  by (simp add: monitor_execution_def create_job_definition_def
      LIFECYCLE_EXECUTION_MONITOR_JOB_TYPE_def example_monitor_def example_world_def emit_def)

text \<open>
  C4. With a non-empty workspace path and a well-formed file system, a successful
  \<open>build_tree\<close> has made exactly these file-system calls, in this order: the removal of the
  package file if it existed, the recursive removal of the extracted directory if it existed,
  then the opening and the writing of the new package file, the archive test and the extraction.
  Afterwards the package file holds the newly decoded bytes, and every path below the extracted
  directory is exactly what the new archive's members put there: whatever an earlier build of
  the same tree name left is gone.
\<close>

theorem build_tree_no_residue:
  assumes ws: "scripts_workspace self \<noteq> []"
    and wf: "well_formed_fs (fs w)"
    and build: "build_tree lib self t payload w = (Inr tree, w')"
  shows "\<exists>data entries.
           b64decode lib payload = Inr data \<and> zip_entries lib data = Inr entries
         \<and> trace w' = trace w
             @ (if os_path_exists (determine_package_path self t) w
                then [OsRemove (determine_package_path self t)] else [])
             @ (if os_path_exists (determine_extracted_path self t) w
                then [ShutilRmtree (determine_extracted_path self t)] else [])
             @ [OpenWb (determine_package_path self t),
                FileWrite (determine_package_path self t) data,
                IsZipfile (determine_package_path self t),
                ZipExtractAll (determine_package_path self t) (determine_extracted_path self t)]
         \<and> fs w' (resolve (determine_package_path self t)) = Some (File data)
         \<and> (\<forall>q. under (resolve (determine_extracted_path self t)) q \<longrightarrow>
                fs w' q = map_of (rev entries) (drop (length (resolve (determine_extracted_path self t))) q))"
proof -
  let ?pkg = "determine_package_path self t" and ?e = "determine_extracted_path self t"
  from build obtain w1 pkgp w2 where clear: "clear_existing_files self t w = (Inr (), w1)"
    and wr: "write_scripts_to_disk lib self t payload w1 = (Inr pkgp, w2)"
    and ex2: "\<exists>x. extract_scripts lib self t pkgp w2 = (Inr x, w')"
    by (auto simp: build_tree_def split: prod.splits sum.splits)
  from wr obtain w1' data where opened: "open_wb ?pkg w1 = (Inr (), w1')"
    and dec: "b64decode lib payload = Inr data" and pk: "pkgp = ?pkg"
    and w2: "w2 = file_write ?pkg data w1'"
    by (auto simp: write_scripts_to_disk_def Let_def split: prod.splits sum.splits)
  have fs1: "fs w1' = (fs w1)(resolve ?pkg \<mapsto> File [])"
    and tr1: "trace w1' = trace w1 @ [OpenWb ?pkg]"
    and parent: "fs w1 (butlast (resolve ?pkg)) = Some Dir"
    using open_wb_ok[OF opened] by simp_all
  have fs2: "fs w2 = (fs w1)(resolve ?pkg \<mapsto> File data)"
    and tr2: "trace w2 = trace w1 @ [OpenWb ?pkg, FileWrite ?pkg data]"
    using w2 fs1 tr1 by (simp_all add: file_write_def emit_def)
  have enonempty: "?e \<noteq> []" by (rule extracted_path_nonempty[OF ws])
  have gone: "fs w1 (resolve ?e) = None"
    using clear_existing_files_ok(2)[OF clear] enonempty by (simp add: os_path_exists_def)
  have notunder: "\<not> under (resolve ?e) (resolve ?pkg)"
    by (rule package_not_under_extracted[OF parent gone])
  have empty_below: "\<And>q. under (resolve ?e) q \<Longrightarrow> fs w1 q = None"
    by (rule clear_existing_files_empties[OF clear wf enonempty])
  let ?w3 = "emit (IsZipfile ?pkg) w2"
  from ex2 pk fs2 have zf: "is_zipfile_bytes lib data"
    and xa: "zipfile_extractall lib ?pkg ?e ?w3 = (Inr (), w')"
    by (auto simp: extract_scripts_def zipfile_is_zipfile_def Let_def
        split: prod.splits sum.splits bool.splits if_splits)
  have fs3: "fs ?w3 (resolve ?pkg) = Some (File data)" using fs2 by (simp add: emit_def)
  from xa fs3 obtain entries where ent: "zip_entries lib data = Inr entries"
    and w': "w' = (if entries = [] then emit (ZipExtractAll ?pkg ?e) ?w3
                   else (emit (ZipExtractAll ?pkg ?e) ?w3)
                          \<lparr>fs := extract_into (resolve ?e) entries (fs ?w3)\<rparr>)"
    by (auto simp: zipfile_extractall_def Let_def split: sum.splits option.splits if_splits)
  have trace': "trace w' = trace w1 @ [OpenWb ?pkg, FileWrite ?pkg data, IsZipfile ?pkg,
                                       ZipExtractAll ?pkg ?e]"
    using w' tr2 by (simp add: emit_def)
  have pkgfile: "fs w' (resolve ?pkg) = Some (File data)"
    using w' fs2 notunder by (simp add: emit_def extract_into_def)
  have below: "fs w' q = map_of (rev entries) (drop (length (resolve ?e)) q)"
    if u: "under (resolve ?e) q" for q
  proof -
    have "q \<noteq> resolve ?pkg" using u notunder by auto
    then have "fs ?w3 q = None" using fs2 empty_below[OF u] by (simp add: emit_def)
    then show ?thesis using w' u by (simp add: emit_def extract_into_def split: option.splits)
  qed
  show ?thesis
    using dec ent trace' pkgfile below clear_existing_files_effect(2)[OF clear] by simp
qed


theorem build_tree_no_residue_witness:
  "scripts_workspace example_file_manager \<noteq> [] \<and> well_formed_fs (fs stale_world)
   \<and> fst (build_tree example_library example_file_manager ''bundle'' ''UEs='' stale_world) =
       Inr (DirectoryTree ''./scripts_workspace/bundle'')
   \<and> fs stale_world [''scripts_workspace'', ''bundle'', ''stale.sh''] = Some (File ''exit 1'')
   \<and> fs (snd (build_tree example_library example_file_manager ''bundle'' ''UEs='' stale_world))
        [''scripts_workspace'', ''bundle'', ''stale.sh''] = None
   \<and> fs (snd (build_tree example_library example_file_manager ''bundle'' ''UEs='' stale_world))
        [''scripts_workspace'', ''bundle'', ''install.sh''] = Some (File ''exit 0'')
   \<and> fs (snd (build_tree example_library example_file_manager ''bundle'' ''UEs='' stale_world))
        [''scripts_workspace'', ''bundle.zip''] = Some (File ''PK'')
   \<and> trace (snd (build_tree example_library example_file_manager ''bundle'' ''UEs='' stale_world)) =
       [OsRemove ''./scripts_workspace/bundle.zip'', ShutilRmtree ''./scripts_workspace/bundle'',
        OpenWb ''./scripts_workspace/bundle.zip'', FileWrite ''./scripts_workspace/bundle.zip'' ''PK'',
        IsZipfile ''./scripts_workspace/bundle.zip'',
        ZipExtractAll ''./scripts_workspace/bundle.zip'' ''./scripts_workspace/bundle'']"
proof -
  let ?w' = "snd (build_tree example_library example_file_manager ''bundle'' ''UEs='' stale_world)"
  have ws: "scripts_workspace example_file_manager \<noteq> []"
    by (simp add: example_file_manager_def)
  have ok: "fst (build_tree example_library example_file_manager ''bundle'' ''UEs='' stale_world) =
              Inr (DirectoryTree ''./scripts_workspace/bundle'')"
    by (simp add: file_manager_defs example_defs)
  then have build: "build_tree example_library example_file_manager ''bundle'' ''UEs='' stale_world =
      (Inr (DirectoryTree ''./scripts_workspace/bundle''), ?w')"
    by (simp add: prod_eq_iff)
  have pkg: "determine_package_path example_file_manager ''bundle'' = ''./scripts_workspace/bundle.zip''"
    and e: "determine_extracted_path example_file_manager ''bundle'' = ''./scripts_workspace/bundle''"
    by (simp_all add: file_manager_defs example_defs)
  have rp: "resolve ''./scripts_workspace/bundle.zip'' = [''scripts_workspace'', ''bundle.zip'']"
    and re: "resolve ''./scripts_workspace/bundle'' = [''scripts_workspace'', ''bundle'']"
    by (simp_all add: file_manager_defs)
  have dec: "b64decode example_library ''UEs='' = Inr ''PK''"
    and ent: "zip_entries example_library ''PK'' = Inr [([''install.sh''], File ''exit 0'')]"
    by (simp_all add: example_library_def)
  have old: "fs stale_world [''scripts_workspace'', ''bundle'', ''stale.sh''] = Some (File ''exit 1'')"
    and ep: "os_path_exists ''./scripts_workspace/bundle.zip'' stale_world"
    and ee: "os_path_exists ''./scripts_workspace/bundle'' stale_world"
    by (simp_all add: stale_world_def os_path_exists_def rp re)
  from build_tree_no_residue[OF ws well_formed_stale_world build]
  obtain data entries where
      d1: "b64decode example_library ''UEs='' = Inr data"
    and d2: "zip_entries example_library data = Inr entries"
    and tr: "trace ?w' = trace stale_world
       @ (if os_path_exists ''./scripts_workspace/bundle.zip'' stale_world
          then [OsRemove ''./scripts_workspace/bundle.zip''] else [])
       @ (if os_path_exists ''./scripts_workspace/bundle'' stale_world
          then [ShutilRmtree ''./scripts_workspace/bundle''] else [])
       @ [OpenWb ''./scripts_workspace/bundle.zip'', FileWrite ''./scripts_workspace/bundle.zip'' data,
          IsZipfile ''./scripts_workspace/bundle.zip'',
          ZipExtractAll ''./scripts_workspace/bundle.zip'' ''./scripts_workspace/bundle'']"
    and pf: "fs ?w' [''scripts_workspace'', ''bundle.zip''] = Some (File data)"
    and below: "\<forall>q. under [''scripts_workspace'', ''bundle''] q \<longrightarrow>
                  fs ?w' q = map_of (rev entries) (drop (length [''scripts_workspace'', ''bundle'']) q)"
    unfolding pkg e rp re by blast
  from d1 dec have data: "data = ''PK''" by simp
  with d2 ent have entries: "entries = [([''install.sh''], File ''exit 0'')]" by simp
  have s1: "fs ?w' [''scripts_workspace'', ''bundle'', ''stale.sh''] = None"
    using below entries by (simp add: under_def)
  have s2: "fs ?w' [''scripts_workspace'', ''bundle'', ''install.sh''] = Some (File ''exit 0'')"
    using below entries by (simp add: under_def)
  have s3: "trace ?w' =
       [OsRemove ''./scripts_workspace/bundle.zip'', ShutilRmtree ''./scripts_workspace/bundle'',
        OpenWb ''./scripts_workspace/bundle.zip'', FileWrite ''./scripts_workspace/bundle.zip'' ''PK'',
        IsZipfile ''./scripts_workspace/bundle.zip'',
        ZipExtractAll ''./scripts_workspace/bundle.zip'' ''./scripts_workspace/bundle'']"
    using tr ep ee data by (simp add: stale_world_def)
  show ?thesis using ws well_formed_stale_world ok old s1 s2 s3 pf data by simp
qed

text \<open>
  C5. A job definition that lacks \<^verbatim>\<open>request_id\<close> or \<^verbatim>\<open>deployment_location\<close> (the key is
  absent or its value is \<^verbatim>\<open>None\<close>) is retired: \<open>job_handler\<close> returns true and leaves
  the world as it was, so the driver is not queried and nothing is published.
\<close>

theorem job_handler_discards_malformed_job:
  assumes "map_of job_definition ''request_id'' = None
         \<or> map_of job_definition ''request_id'' = Some PyNone
         \<or> map_of job_definition ''deployment_location'' = None
         \<or> map_of job_definition ''deployment_location'' = Some PyNone"
  shows "job_handler lib self job_definition w = (Inr True, w)"
  using assms by (auto simp: job_handler_def)

theorem job_handler_discards_malformed_job_witness:
  "map_of [(''job_type'', PyStr ''LifecycleExecutionMonitoring''), (''request_id'', PyStr ''abc'')]
       ''deployment_location'' = None
   \<and> job_handler example_library example_monitor
        [(''job_type'', PyStr ''LifecycleExecutionMonitoring''), (''request_id'', PyStr ''abc'')]
        example_world = (Inr True, example_world)"
  using job_handler_discards_malformed_job
    [of "[(''job_type'', PyStr ''LifecycleExecutionMonitoring''), (''request_id'', PyStr ''abc'')]"
        example_library example_monitor example_world]
  by simp

text \<open>
  C6. A submission that succeeds has drawn its bundle name from \<^verbatim>\<open>uuid.uuid4()\<close> alone
  (the name is fixed before the driver is called, so no request id enters it), has built the
  script tree under that name, has then called the driver with that tree, and has then, exactly
  when the mode flag \<open>async_enabled\<close> is \<^verbatim>\<open>True\<close>, enqueued one monitor job for the
  acknowledged request id and the deployment location; the value returned is the driver's
  acknowledgement itself. The draw of the UUID is a parameter of the model.
\<close>

theorem execute_lifecycle_success:
  assumes "execute_lifecycle lib self lifecycle_name lifecycle_scripts system_properties properties
             deployment_location w = (Inr ack, w')"
  shows "\<exists>w1.
           build_tree lib (script_file_manager self) (uuid4 lib) lifecycle_scripts w =
             (Inr (DirectoryTree (determine_extracted_path (script_file_manager self) (uuid4 lib))), w1)
         \<and> driver_execute_lifecycle (driver self) lifecycle_name
             (DirectoryTree (determine_extracted_path (script_file_manager self) (uuid4 lib)))
             system_properties properties deployment_location = Inr ack
         \<and> fs w' = fs w1
         \<and> trace w' = trace w1
             @ [DriverExecuteLifecycle lifecycle_name
                  (DirectoryTree (determine_extracted_path (script_file_manager self) (uuid4 lib)))
                  system_properties properties deployment_location]
             @ (if async_enabled self = PyBool True
                then [QueueJob [(''job_type'', PyStr ''LifecycleExecutionMonitoring''),
                                (''request_id'', er_request_id ack),
                                (''deployment_location'', deployment_location)]]
                else [])
         \<and> collaborator_calls w' = collaborator_calls w
             @ [DriverExecuteLifecycle lifecycle_name
                  (DirectoryTree (determine_extracted_path (script_file_manager self) (uuid4 lib)))
                  system_properties properties deployment_location]
             @ (if async_enabled self = PyBool True
                then [QueueJob [(''job_type'', PyStr ''LifecycleExecutionMonitoring''),
                                (''request_id'', er_request_id ack),
                                (''deployment_location'', deployment_location)]]
                else [])"
proof -
  from assms obtain tree w1 where
    build: "build_tree lib (script_file_manager self) (uuid4 lib) lifecycle_scripts w = (Inr tree, w1)"
    by (auto simp: execute_lifecycle_def Let_def split: prod.splits sum.splits)
  have tree: "tree = DirectoryTree (determine_extracted_path (script_file_manager self) (uuid4 lib))"
    by (rule build_tree_handle[OF build])
  let ?w2 = "emit (DriverExecuteLifecycle lifecycle_name tree system_properties properties
                     deployment_location) w1"
  from assms build have drv: "driver_execute_lifecycle (driver self) lifecycle_name tree
      system_properties properties deployment_location = Inr ack"
    by (auto simp: execute_lifecycle_def Let_def split: sum.splits prod.splits if_splits)
  from assms build drv have rest:
    "(if async_enabled self = PyBool True then
        (case async_lifecycle_execution_completion self (er_request_id ack) deployment_location ?w2 of
           (Inl e, w3) \<Rightarrow> (Inl e, w3) | (Inr _, w3) \<Rightarrow> (Inr ack, w3))
      else (Inr ack, ?w2)) = (Inr ack, w')"
    by (simp add: execute_lifecycle_def Let_def)
  have "fs w' = fs w1 \<and> trace w' = trace w1
             @ [DriverExecuteLifecycle lifecycle_name tree system_properties properties deployment_location]
             @ (if async_enabled self = PyBool True
                then [QueueJob [(''job_type'', PyStr ''LifecycleExecutionMonitoring''),
                                (''request_id'', er_request_id ack),
                                (''deployment_location'', deployment_location)]]
                else [])"
  proof (cases "async_enabled self = PyBool True")
    case False
    then show ?thesis using rest by (auto simp: emit_def)
  next
    case True
    with rest show ?thesis
      by (auto simp: async_lifecycle_execution_completion_def monitor_execution_def
          create_job_definition_def LIFECYCLE_EXECUTION_MONITOR_JOB_TYPE_def emit_def Let_def
          split: prod.splits sum.splits option.splits if_splits)
  qed
  then show ?thesis
    using build drv tree build_tree_calls[OF build] by (simp add: collaborator_calls_def)
qed


theorem execute_lifecycle_success_witness:
  "fst (execute_lifecycle example_library example_service (PyStr ''install'') ''UEs='' (PyDict [])
          (PyDict []) example_location example_world) = Inr \<lparr>er_request_id = PyStr ''abc''\<rparr>
   \<and> collaborator_calls
        (snd (execute_lifecycle example_library example_service (PyStr ''install'') ''UEs=''
                (PyDict []) (PyDict []) example_location example_world)) =
       [DriverExecuteLifecycle (PyStr ''install'')
          (DirectoryTree ''./scripts_workspace/0b0e3f6c-5a3d-4c43-9d0b-3f1f7f0e2a11'')
          (PyDict []) (PyDict []) example_location,
        QueueJob (example_job ''abc'')]"
proof -
  let ?r = "execute_lifecycle example_library example_service (PyStr ''install'') ''UEs=''
              (PyDict []) (PyDict []) example_location example_world"
  have ok: "fst ?r = Inr \<lparr>er_request_id = PyStr ''abc''\<rparr>"
    by (simp add: execute_lifecycle_def async_lifecycle_execution_completion_def
        monitor_execution_def create_job_definition_def file_manager_defs example_defs)
  then have run: "?r = (Inr \<lparr>er_request_id = PyStr ''abc''\<rparr>, snd ?r)"
    by (simp add: prod_eq_iff)
  have e: "determine_extracted_path (script_file_manager example_service) (uuid4 example_library) =
             ''./scripts_workspace/0b0e3f6c-5a3d-4c43-9d0b-3f1f7f0e2a11''"
    by (simp add: file_manager_defs example_defs)
  have flag: "async_enabled example_service = PyBool True"
    by (simp add: example_service_def)
  have none: "collaborator_calls example_world = []"
    by (simp add: collaborator_calls_def example_world_def)
  from execute_lifecycle_success[OF run] ok show ?thesis
    unfolding e by (auto simp: flag none example_job_def)
qed

text \<open>
  C7. When \<open>build_tree\<close> fails for the drawn bundle name, \<open>execute_lifecycle\<close> returns that
  very error and the world \<open>build_tree\<close> left: the caller gets no acknowledgement, and the list
  of calls to the driver, the job queue and the postal service is what it was before the
  submission.
\<close>

theorem execute_lifecycle_bundle_failure:
  assumes "build_tree lib (script_file_manager self) (uuid4 lib) lifecycle_scripts w = (Inl e, w')"
  shows "execute_lifecycle lib self lifecycle_name lifecycle_scripts system_properties properties
           deployment_location w = (Inl e, w')
         \<and> collaborator_calls w' = collaborator_calls w"
  using assms build_tree_calls[OF assms] by (simp add: execute_lifecycle_def Let_def)


theorem execute_lifecycle_bundle_failure_witness:
  "fst (build_tree example_library (script_file_manager example_service) (uuid4 example_library)
          ''not base64'' example_world) = Inl (BinasciiError ''Incorrect padding'')
   \<and> fst (execute_lifecycle example_library example_service (PyStr ''install'') ''not base64''
            (PyDict []) (PyDict []) example_location example_world) =
       Inl (BinasciiError ''Incorrect padding'')
   \<and> collaborator_calls
        (snd (execute_lifecycle example_library example_service (PyStr ''install'') ''not base64''
                (PyDict []) (PyDict []) example_location example_world)) = []"
proof -
  let ?b = "build_tree example_library (script_file_manager example_service)
              (uuid4 example_library) ''not base64'' example_world"
  have failed: "fst ?b = Inl (BinasciiError ''Incorrect padding'')"
    by (simp add: file_manager_defs example_defs)
  then have b: "?b = (Inl (BinasciiError ''Incorrect padding''), snd ?b)"
    by (simp add: prod_eq_iff)
  have none: "collaborator_calls example_world = []"
    by (simp add: collaborator_calls_def example_world_def)
  from execute_lifecycle_bundle_failure[OF b] failed none show ?thesis by simp
qed

text \<open>
  C8. \<open>send_lifecycle_execution\<close> raises \<^verbatim>\<open>ValueError\<close> (the spec's ValidationError) and
  posts nothing when the execution record is \<^verbatim>\<open>None\<close>; otherwise it renders the record's
  fields requestId, status, outputs and failureDetail and makes exactly one \<^verbatim>\<open>post\<close> call,
  to the topic the service was configured with, returning or raising as the postal service does.
\<close>

theorem send_lifecycle_execution_contract:
  "send_lifecycle_execution lib self None w =
     (Inl (ValueError ''lifecycle_execution must be set to send an lifecycle execution event''), w)
   \<and> send_lifecycle_execution lib self (Some le) w =
     (case post (postal_service self)
             (Envelope (lifecycle_execution_events_topic self)
                (Message (json_content_get lib
                   (PyDict [(''requestId'', le_request_id le), (''status'', le_status le),
                            (''outputs'', le_outputs le),
                            (''failureDetail'', le_failure_details le)])))) of
        None \<Rightarrow> Inr ()
      | Some e \<Rightarrow> Inl e,
      emit (PostalPost
             (Envelope (lifecycle_execution_events_topic self)
                (Message (json_content_get lib
                   (PyDict [(''requestId'', le_request_id le), (''status'', le_status le),
                            (''outputs'', le_outputs le),
                            (''failureDetail'', le_failure_details le)]))))) w)"
  by (simp add: send_lifecycle_execution_def lifecycle_execution_dict_def Let_def
      split: option.splits)

theorem send_lifecycle_execution_contract_witness:
  "send_lifecycle_execution example_library example_messaging None example_world =
     (Inl (ValueError ''lifecycle_execution must be set to send an lifecycle execution event''),
      example_world)
   \<and> send_lifecycle_execution example_library example_messaging
       (Some \<lparr>le_request_id = PyStr ''abc'', le_status = PyStr ''FAILED'', le_outputs = PyDict [],
              le_failure_details = PyStr ''boom''\<rparr>) example_world =
     (Inr (),
      example_world\<lparr>trace :=
        [PostalPost (Envelope (PyStr ''lifecycle_execution_events'')
           (Message ''requestIdstatusoutputsfailureDetail''))]\<rparr>)"
  using send_lifecycle_execution_contract
    [of example_library example_messaging example_world
        "\<lparr>le_request_id = PyStr ''abc'', le_status = PyStr ''FAILED'', le_outputs = PyDict [],
          le_failure_details = PyStr ''boom''\<rparr>"]
  by (simp add: example_defs emit_def)

text \<open>
  C9. For a well-formed job and any status the driver reports other than COMPLETE and FAILED,
  whether or not the status is one the spec enumerates, \<open>job_handler\<close> returns false; the
  only call it has made is the status query, so nothing is published and no error is raised.
\<close>

theorem job_handler_non_terminal_status:
  assumes "map_of job_definition ''request_id'' = Some request_id" and "request_id \<noteq> PyNone"
    and "map_of job_definition ''deployment_location'' = Some deployment_location"
    and "deployment_location \<noteq> PyNone"
    and "driver_get_lifecycle_execution (monitor_driver self) request_id deployment_location
           = Inr task"
    and "le_status task \<noteq> STATUS_COMPLETE" and "le_status task \<noteq> STATUS_FAILED"
  shows "job_handler lib self job_definition w =
           (Inr False, emit (DriverGetLifecycleExecution request_id deployment_location) w)"
  using assms by (simp add: job_handler_def Let_def)

theorem job_handler_non_terminal_status_witness:
  "map_of (example_job ''xyz'') ''request_id'' = Some (PyStr ''xyz'') \<and> PyStr ''xyz'' \<noteq> PyNone
   \<and> map_of (example_job ''xyz'') ''deployment_location'' = Some example_location
   \<and> example_location \<noteq> PyNone
   \<and> driver_get_lifecycle_execution (monitor_driver example_monitor) (PyStr ''xyz'')
        example_location =
       Inr \<lparr>le_request_id = PyStr ''xyz'', le_status = PyStr ''PAUSED'', le_outputs = PyDict [],
            le_failure_details = PyNone\<rparr>
   \<and> PyStr ''PAUSED'' \<noteq> STATUS_COMPLETE \<and> PyStr ''PAUSED'' \<noteq> STATUS_FAILED
   \<and> job_handler example_library example_monitor (example_job ''xyz'') example_world =
       (Inr False,
        example_world\<lparr>trace := [DriverGetLifecycleExecution (PyStr ''xyz'') example_location]\<rparr>)"
  using job_handler_non_terminal_status
    [of "example_job ''xyz''" "PyStr ''xyz''" example_location example_monitor
        "\<lparr>le_request_id = PyStr ''xyz'', le_status = PyStr ''PAUSED'', le_outputs = PyDict [],
          le_failure_details = PyNone\<rparr>" example_library example_world]
  by (simp add: example_defs STATUS_COMPLETE_def STATUS_FAILED_def emit_def)

text \<open>
  C10. The constructor of \<open>LifecycleService\<close> raises \<^verbatim>\<open>ValueError\<close> when the configuration
  has \<open>async_messaging_enabled\<close> \<^verbatim>\<open>True\<close> and no \<^verbatim>\<open>lifecycle_monitor_service\<close> argument is
  given. When the flag is anything but \<^verbatim>\<open>True\<close> and the driver, the configuration and the
  script file manager are given, construction succeeds with the monitor attribute unset, and
  \<open>execute_lifecycle\<close> of the constructed service does not depend on that attribute: it behaves
  the same whatever is put there.
\<close>

theorem lifecycle_service_monitor_requirement:
  "(kw_lifecycle_config kwargs = Some cfg \<and> async_messaging_enabled cfg = PyBool True
      \<and> kw_lifecycle_monitor_service kwargs = None
      \<longrightarrow> (\<exists>msg. lifecycle_service_init kwargs = Inl (ValueError msg)))
   \<and> (kw_driver kwargs = Some d \<and> kw_lifecycle_config kwargs = Some cfg
      \<and> kw_script_file_manager kwargs = Some m \<and> async_messaging_enabled cfg \<noteq> PyBool True
      \<longrightarrow> (\<exists>self. lifecycle_service_init kwargs = Inr self
             \<and> lifecycle_monitor_service self = None
             \<and> (\<forall>monitor lib lifecycle_name lifecycle_scripts system_properties properties
                   deployment_location w.
                   execute_lifecycle lib (self\<lparr>lifecycle_monitor_service := monitor\<rparr>) lifecycle_name
                     lifecycle_scripts system_properties properties deployment_location w =
                   execute_lifecycle lib self lifecycle_name lifecycle_scripts system_properties
                     properties deployment_location w)))"
proof (intro conjI impI)
  assume "kw_lifecycle_config kwargs = Some cfg \<and> async_messaging_enabled cfg = PyBool True
            \<and> kw_lifecycle_monitor_service kwargs = None"
  then show "\<exists>msg. lifecycle_service_init kwargs = Inl (ValueError msg)"
    by (auto simp: lifecycle_service_init_def split: option.splits)
next
  assume a: "kw_driver kwargs = Some d \<and> kw_lifecycle_config kwargs = Some cfg
               \<and> kw_script_file_manager kwargs = Some m \<and> async_messaging_enabled cfg \<noteq> PyBool True"
  define self where "self = \<lparr>driver = d, script_file_manager = m,
     async_enabled = async_messaging_enabled cfg, lifecycle_monitor_service = None\<rparr>"
  have init: "lifecycle_service_init kwargs = Inr self"
    using a by (simp add: lifecycle_service_init_def self_def)
  have flag: "async_enabled self \<noteq> PyBool True" and unset: "lifecycle_monitor_service self = None"
    using a by (simp_all add: self_def)
  show "\<exists>self. lifecycle_service_init kwargs = Inr self
             \<and> lifecycle_monitor_service self = None
             \<and> (\<forall>monitor lib lifecycle_name lifecycle_scripts system_properties properties
                   deployment_location w.
                   execute_lifecycle lib (self\<lparr>lifecycle_monitor_service := monitor\<rparr>) lifecycle_name
                     lifecycle_scripts system_properties properties deployment_location w =
                   execute_lifecycle lib self lifecycle_name lifecycle_scripts system_properties
                     properties deployment_location w)"
    using init unset execute_lifecycle_ignores_monitor[OF flag] by blast
qed


theorem lifecycle_service_monitor_requirement_witness:
  "(\<exists>msg. lifecycle_service_init
            \<lparr>kw_driver = Some example_driver,
             kw_lifecycle_config = Some \<lparr>async_messaging_enabled = PyBool True\<rparr>,
             kw_script_file_manager = Some example_file_manager,
             kw_lifecycle_monitor_service = None\<rparr> = Inl (ValueError msg))
   \<and> lifecycle_service_init
        \<lparr>kw_driver = Some example_driver,
         kw_lifecycle_config = Some \<lparr>async_messaging_enabled = PyBool False\<rparr>,
         kw_script_file_manager = Some example_file_manager,
         kw_lifecycle_monitor_service = None\<rparr> =
       Inr \<lparr>driver = example_driver, script_file_manager = example_file_manager,
            async_enabled = PyBool False, lifecycle_monitor_service = None\<rparr>
   \<and> execute_lifecycle example_library
        \<lparr>driver = example_driver, script_file_manager = example_file_manager,
         async_enabled = PyBool False, lifecycle_monitor_service = Some example_monitor\<rparr>
        (PyStr ''install'') ''UEs='' (PyDict []) (PyDict []) example_location example_world =
      execute_lifecycle example_library
        \<lparr>driver = example_driver, script_file_manager = example_file_manager,
         async_enabled = PyBool False, lifecycle_monitor_service = None\<rparr>
        (PyStr ''install'') ''UEs='' (PyDict []) (PyDict []) example_location example_world"
proof -
  let ?on = "\<lparr>kw_driver = Some example_driver,
             kw_lifecycle_config = Some \<lparr>async_messaging_enabled = PyBool True\<rparr>,
             kw_script_file_manager = Some example_file_manager,
             kw_lifecycle_monitor_service = None\<rparr>"
  let ?off = "\<lparr>kw_driver = Some example_driver,
             kw_lifecycle_config = Some \<lparr>async_messaging_enabled = PyBool False\<rparr>,
             kw_script_file_manager = Some example_file_manager,
             kw_lifecycle_monitor_service = None\<rparr>"
  have a: "\<exists>msg. lifecycle_service_init ?on = Inl (ValueError msg)"
    using lifecycle_service_monitor_requirement
      [of ?on "\<lparr>async_messaging_enabled = PyBool True\<rparr>" example_driver example_file_manager]
    by simp
  have init: "lifecycle_service_init ?off =
       Inr \<lparr>driver = example_driver, script_file_manager = example_file_manager,
            async_enabled = PyBool False, lifecycle_monitor_service = None\<rparr>"
    by (simp add: lifecycle_service_init_def)
  from lifecycle_service_monitor_requirement
      [of ?off "\<lparr>async_messaging_enabled = PyBool False\<rparr>" example_driver example_file_manager]
  obtain self where s: "lifecycle_service_init ?off = Inr self"
    and indep: "\<forall>monitor lib lifecycle_name lifecycle_scripts system_properties properties
                 deployment_location w.
                 execute_lifecycle lib (self\<lparr>lifecycle_monitor_service := monitor\<rparr>) lifecycle_name
                   lifecycle_scripts system_properties properties deployment_location w =
                 execute_lifecycle lib self lifecycle_name lifecycle_scripts system_properties
                   properties deployment_location w"
    by auto
  from s init have self: "self = \<lparr>driver = example_driver, script_file_manager = example_file_manager,
            async_enabled = PyBool False, lifecycle_monitor_service = None\<rparr>" by simp
  from indep
  have "execute_lifecycle example_library
        (self\<lparr>lifecycle_monitor_service := Some example_monitor\<rparr>)
        (PyStr ''install'') ''UEs='' (PyDict []) (PyDict []) example_location example_world =
      execute_lifecycle example_library self
        (PyStr ''install'') ''UEs='' (PyDict []) (PyDict []) example_location example_world"
    by blast
  then have "execute_lifecycle example_library
        \<lparr>driver = example_driver, script_file_manager = example_file_manager,
         async_enabled = PyBool False, lifecycle_monitor_service = Some example_monitor\<rparr>
        (PyStr ''install'') ''UEs='' (PyDict []) (PyDict []) example_location example_world =
      execute_lifecycle example_library
        \<lparr>driver = example_driver, script_file_manager = example_file_manager,
         async_enabled = PyBool False, lifecycle_monitor_service = None\<rparr>
        (PyStr ''install'') ''UEs='' (PyDict []) (PyDict []) example_location example_world"
    unfolding self by simp
  with a init show ?thesis by simp
qed

end
